theory Spec2Isabelle
  imports Complex_Main
begin

section \<open>Data of driveGUI.py\<close>

text \<open>
  Python values that the program handles without looking inside them: the values of the
  parsed arguments, the dictionary that \<^verbatim>\<open>recvMessage\<close> returns and the bytes of a frame.
\<close>

datatype pyval =
    PNone
  | PInt int
  | PStr string
  | PBytes "nat list"
  | PDict "(string \<times> pyval) list"

datatype exn = ConnectionError | DecodeError | KeyError string | TypeError

text \<open>
  \<^verbatim>\<open>message['frame']\<close>: a dictionary raises KeyError for a missing key, every other value
  of \<open>pyval\<close> raises TypeError when it is subscripted with a string.
\<close>

fun subscript :: "pyval \<Rightarrow> string \<Rightarrow> exn + pyval" where
  "subscript (PDict d) k = (case map_of d k of None \<Rightarrow> Inl (KeyError k) | Some v \<Rightarrow> Inr v)"
| "subscript v k = Inl TypeError"

text \<open>The array that \<^verbatim>\<open>frame2numpy\<close> builds; \<open>tolist\<close> is \<^verbatim>\<open>image.tolist()\<close>.\<close>

datatype ndarray = NDArray (tolist: "nat list list list")

text \<open>The messages of \<^verbatim>\<open>deepgtav.messages\<close> that the worker sends.\<close>

datatype scenario = Scenario (drivingMode: int)

datatype message = Start scenario | Stop | Commands real real real

text \<open>
  The texts of \<^verbatim>\<open>sig_msg\<close>, kept as their format arguments:
  \<open>Running i name tid\<close> is \<^verbatim>\<open>'Running worker #{} from thread "{}" (#{})'.format(i, name, tid)\<close>
  and \<open>NotifiedAbort i\<close> is \<^verbatim>\<open>'Worker #{} notified to abort'.format(i)\<close>.
\<close>

datatype msgtext = Running int string int | NotifiedAbort int

text \<open>
  What the worker does to the world outside it, in the order it does it: the four signals
  of class Worker, the calls on the client (logged when the call is made, whether or not
  it then raises), the call of \<^verbatim>\<open>app.processEvents()\<close> and the line the exception hook
  prints. \<open>SigStep i t\<close> carries the clock reading \<open>t\<close> of
  \<^verbatim>\<open>'step ' + str(time.time())\<close>.
\<close>

datatype event =
    SigMsg msgtext
  | SigStep int real
  | SigImage "nat list list list"
  | SigDone int
  | ClientNew pyval pyval
  | SendMessage message
  | RecvMessage
  | Close
  | ProcessEvents
  | Print exn

text \<open>The namespace that \<^verbatim>\<open>parser.parse_args()\<close> returns.\<close>

record args =
  host :: pyval
  port :: pyval

text \<open>
  The command line, as the values it gives for the two options (the last one when an
  option is repeated); how argparse splits the command line into options is not modelled.
\<close>

record cmdline =
  opt_host :: "string option"
  opt_port :: "string option"

text \<open>
  \<^verbatim>\<open>add_argument('-l', '--host', default='localhost')\<close> and
  \<^verbatim>\<open>add_argument('-p', '--port', default=8000)\<close>: neither has a \<^verbatim>\<open>type=\<close>, so a value
  given on the command line stays the string that was typed.
\<close>

definition parse_args :: "cmdline \<Rightarrow> args" where
  "parse_args c =
     \<lparr> host = (case opt_host c of None \<Rightarrow> PStr ''localhost'' | Some v \<Rightarrow> PStr v),
       port = (case opt_port c of None \<Rightarrow> PInt 8000 | Some v \<Rightarrow> PStr v) \<rparr>"

text \<open>
  A Worker object (\<open>wid\<close> is \<^verbatim>\<open>self.__id\<close>, \<open>abort_flag\<close> is \<^verbatim>\<open>self.__abort\<close>,
  \<open>client\<close> the ip and port of \<^verbatim>\<open>self.client\<close> once it is made), together with the log
  of the events so far.
\<close>

record worker =
  wid :: int
  abort_flag :: bool
  wargs :: args
  client :: "(pyval \<times> pyval) option"
  log :: "event list"

definition Worker_init :: "int \<Rightarrow> args \<Rightarrow> worker" where
  "Worker_init i a =
     \<lparr> wid = i, abort_flag = False, wargs = a, client = None, log = [] \<rparr>"

text \<open>
  What the surroundings answer to the calls of one run of \<^verbatim>\<open>work()\<close>. The client and
  \<^verbatim>\<open>frame2numpy\<close> live in the deepgtav package, the clock and the event queue in
  the system: each is a parameter. A call answers \<open>Inl e\<close> when it raises \<open>e\<close>. The
  answers to the calls made inside the loop are indexed by the pass of the loop
  (0 for the first) in which the call is made.
\<close>

record env =
  thread_name :: string
  thread_id :: int
  client_new :: "exn + unit"
  send_start :: "exn + unit"
  time0 :: real
  time_cond :: "nat \<Rightarrow> real"
  abort_queued :: "nat \<Rightarrow> bool"
  recvMessage :: "nat \<Rightarrow> exn + pyval"
  frame2numpy :: "pyval \<Rightarrow> nat \<times> nat \<Rightarrow> exn + ndarray"
  time_step :: "nat \<Rightarrow> real"
  send_commands :: "nat \<Rightarrow> exn + unit"
  send_stop :: "exn + unit"
  client_close :: "exn + unit"

section \<open>The worker\<close>

definition emit :: "event \<Rightarrow> worker \<Rightarrow> worker" where
  "emit e s = s\<lparr>log := log s @ [e]\<rparr>"

text \<open>\<^verbatim>\<open>Model.run\<close>: throttle, brake, steering.\<close>

definition run :: "ndarray \<Rightarrow> real list" where
  "run frame = [1.0, 0.0, 0.0]"

text \<open>\<^verbatim>\<open>Worker.abort\<close>.\<close>

definition abort :: "worker \<Rightarrow> worker" where
  "abort s = (emit (SigMsg (NotifiedAbort (wid s))) s)\<lparr>abort_flag := True\<rparr>"

text \<open>
  \<^verbatim>\<open>app.processEvents()\<close> called from \<^verbatim>\<open>work()\<close>: the worker lives in its own thread, so
  the abort signal of the widget is queued for it, and the queued call of \<open>abort\<close> runs
  here, while \<^verbatim>\<open>work()\<close> blocks the thread's event loop.
\<close>

definition processEvents :: "env \<Rightarrow> nat \<Rightarrow> worker \<Rightarrow> worker" where
  "processEvents env i s =
     (let s1 = emit ProcessEvents s in if abort_queued env i then abort s1 else s1)"

text \<open>The body of the while loop of \<^verbatim>\<open>work()\<close>, in pass \<open>i\<close>.\<close>

definition work_body :: "env \<Rightarrow> nat \<Rightarrow> worker \<Rightarrow> (exn + unit) \<times> worker" where
  "work_body env i s0 =
     (let s1 = processEvents env i s0;
          s2 = emit RecvMessage s1
      in case recvMessage env i of
           Inl e \<Rightarrow> (Inl e, s2)
         | Inr message \<Rightarrow>
             (case subscript message ''frame'' of
                Inl e \<Rightarrow> (Inl e, s2)
              | Inr buf \<Rightarrow>
                  (case frame2numpy env buf (320, 160) of
                     Inl e \<Rightarrow> (Inl e, s2)
                   | Inr img \<Rightarrow>
                       (let commands = run img;
                            s3 = emit (SigStep (wid s2) (time_step env i)) s2;
                            s4 = emit (SigImage (tolist img)) s3;
                            s5 = emit (SendMessage
                                   (Commands (commands ! 0) (commands ! 1) (commands ! 2))) s4
                        in (send_commands env i, s5)))))"

text \<open>
  The while loop. It can run for ever, so the first argument bounds the number of times
  the condition is evaluated: the status \<open>None\<close> says that the loop is still running
  when the bound is used up, \<open>Some (Inr ())\<close> that the condition was false, and
  \<open>Some (Inl e)\<close> that the body raised \<open>e\<close>. The clock is read before the flag, as
  \<^verbatim>\<open>and\<close> evaluates.
\<close>

fun work_loop :: "nat \<Rightarrow> env \<Rightarrow> real \<Rightarrow> nat \<Rightarrow> worker \<Rightarrow> (exn + unit) option \<times> worker" where
  "work_loop 0 env stoptime i s = (None, s)"
| "work_loop (Suc n) env stoptime i s =
     (if time_cond env i < stoptime \<and> \<not> abort_flag s then
        (case work_body env i s of
           (Inl e, s') \<Rightarrow> (Some (Inl e), s')
         | (Inr u, s') \<Rightarrow> work_loop n env stoptime (Suc i) s')
      else (Some (Inr ()), s))"

text \<open>\<^verbatim>\<open>Worker.work\<close>.\<close>

definition work :: "nat \<Rightarrow> env \<Rightarrow> worker \<Rightarrow> (exn + unit) option \<times> worker" where
  "work fuel env s0 =
     (let s1 = emit (SigMsg (Running (wid s0) (thread_name env) (thread_id env))) s0;
          s2 = emit (ClientNew (host (wargs s1)) (port (wargs s1))) s1
      in case client_new env of
           Inl e \<Rightarrow> (Some (Inl e), s2)
         | Inr u \<Rightarrow>
             (let s3 = s2\<lparr>client := Some (host (wargs s2), port (wargs s2))\<rparr>;
                  scenario = Scenario (- 1);
                  s4 = emit (SendMessage (Start scenario)) s3
              in case send_start env of
                   Inl e \<Rightarrow> (Some (Inl e), s4)
                 | Inr u \<Rightarrow>
                     (let stoptime = time0 env + 80 * 3600
                      in case work_loop fuel env stoptime 0 s4 of
                           (None, s5) \<Rightarrow> (None, s5)
                         | (Some (Inl e), s5) \<Rightarrow> (Some (Inl e), s5)
                         | (Some (Inr u), s5) \<Rightarrow>
                             (let s6 = emit (SendMessage Stop) s5
                              in case send_stop env of
                                   Inl e \<Rightarrow> (Some (Inl e), s6)
                                 | Inr u \<Rightarrow>
                                     (let s7 = emit Close s6
                                      in case client_close env of
                                           Inl e \<Rightarrow> (Some (Inl e), s7)
                                         | Inr u \<Rightarrow>
                                             (Some (Inr ()), emit (SigDone (wid s7)) s7))))))"

text \<open>
  \<^verbatim>\<open>trap_exc_during_debug\<close>, installed as \<^verbatim>\<open>sys.excepthook\<close>: it prints its arguments.
\<close>

definition trap_exc_during_debug :: "exn \<Rightarrow> worker \<Rightarrow> worker" where
  "trap_exc_during_debug e s = emit (Print e) s"

text \<open>
  \<^verbatim>\<open>thread.started.connect(worker.work)\<close>: the thread calls \<^verbatim>\<open>work()\<close> as a slot, and an
  exception that leaves the slot goes to the installed hook.
\<close>

definition started :: "nat \<Rightarrow> env \<Rightarrow> worker \<Rightarrow> (exn + unit) option \<times> worker" where
  "started fuel env s =
     (case work fuel env s of
        (Some (Inl e), s') \<Rightarrow> (Some (Inr ()), trap_exc_during_debug e s')
      | r \<Rightarrow> r)"

text \<open>
  The signals that \<^verbatim>\<open>MyWidget.start_thread\<close> connects to a slot: \<^verbatim>\<open>sig_step\<close>,
  \<^verbatim>\<open>sig_done\<close> and \<^verbatim>\<open>sig_image\<close>. The connection of \<^verbatim>\<open>sig_msg\<close> is commented out there,
  so nothing receives it.
\<close>

fun connected :: "event \<Rightarrow> bool" where
  "connected (SigStep i t) = True"
| "connected (SigDone i) = True"
| "connected (SigImage img) = True"
| "connected e = False"

section \<open>What one pass of the loop does, read off the answers of the surroundings\<close>

text \<open>
  The frame of pass \<open>i\<close>, when \<^verbatim>\<open>recvMessage\<close>, the lookup of \<^verbatim>\<open>'frame'\<close> and
  \<^verbatim>\<open>frame2numpy\<close> all succeed in that pass.
\<close>

definition pass_image :: "env \<Rightarrow> nat \<Rightarrow> ndarray option" where
  "pass_image env i =
     (case recvMessage env i of
        Inl e \<Rightarrow> None
      | Inr message \<Rightarrow>
          (case subscript message ''frame'' of
             Inl e \<Rightarrow> None
           | Inr buf \<Rightarrow>
               (case frame2numpy env buf (320, 160) of Inl e \<Rightarrow> None | Inr img \<Rightarrow> Some img)))"

text \<open>How pass \<open>i\<close> ends: \<open>Inr ()\<close> when nothing raises in it.\<close>

definition pass_result :: "env \<Rightarrow> nat \<Rightarrow> exn + unit" where
  "pass_result env i =
     (case recvMessage env i of
        Inl e \<Rightarrow> Inl e
      | Inr message \<Rightarrow>
          (case subscript message ''frame'' of
             Inl e \<Rightarrow> Inl e
           | Inr buf \<Rightarrow>
               (case frame2numpy env buf (320, 160) of
                  Inl e \<Rightarrow> Inl e
                | Inr img \<Rightarrow> send_commands env i)))"

text \<open>The events of pass \<open>i\<close> of worker \<open>w\<close>, in their order.\<close>

definition pass_events :: "env \<Rightarrow> int \<Rightarrow> nat \<Rightarrow> event list" where
  "pass_events env w i =
     [ProcessEvents] @ (if abort_queued env i then [SigMsg (NotifiedAbort w)] else []) @
     [RecvMessage] @
     (case pass_image env i of
        None \<Rightarrow> []
      | Some img \<Rightarrow>
          [SigStep w (time_step env i), SigImage (tolist img),
           SendMessage (Commands (run img ! 0) (run img ! 1) (run img ! 2))])"

text \<open>The events of \<^verbatim>\<open>work()\<close> before the loop, once the client is made.\<close>

definition prologue :: "env \<Rightarrow> worker \<Rightarrow> event list" where
  "prologue env s =
     [SigMsg (Running (wid s) (thread_name env) (thread_id env)),
      ClientNew (host (wargs s)) (port (wargs s)),
      SendMessage (Start (Scenario (- 1)))]"




fun is_done :: "event \<Rightarrow> bool" where
  "is_done (SigDone i) = True"
| "is_done e = False"

fun is_client :: "event \<Rightarrow> bool" where
  "is_client (ClientNew h p) = True"
| "is_client (SendMessage m) = True"
| "is_client RecvMessage = True"
| "is_client Close = True"
| "is_client e = False"

text \<open>The stop time that \<^verbatim>\<open>work()\<close> computes from the first clock reading.\<close>

definition deadline :: "env \<Rightarrow> real" where
  "deadline env = time0 env + 80 * 3600"

text \<open>
  The first \<open>N\<close> passes are entered and none of them raises, and no abort is dispatched
  in them.
\<close>

definition quiet_passes :: "env \<Rightarrow> nat \<Rightarrow> bool" where
  "quiet_passes env N =
     (\<forall>j<N. time_cond env j < deadline env \<and> pass_result env j = Inr () \<and>
            \<not> abort_queued env j)"


text \<open>The worker after the lines of \<^verbatim>\<open>work()\<close> before the loop.\<close>

definition after_prologue :: "env \<Rightarrow> worker \<Rightarrow> worker" where
  "after_prologue env s =
     s\<lparr>client := Some (host (wargs s), port (wargs s)), log := log s @ prologue env s\<rparr>"


text \<open>The events with which \<^verbatim>\<open>work()\<close> ends after the loop.\<close>

fun is_epilogue :: "event \<Rightarrow> bool" where
  "is_epilogue (SendMessage Stop) = True"
| "is_epilogue Close = True"
| "is_epilogue (SigDone i) = True"
| "is_epilogue e = False"


section \<open>Sample surroundings\<close>

text \<open>
  The simulator delivers three frames and then the connection breaks; nobody presses
  Stop and the clock runs normally.
\<close>

definition env_frames :: env where
  "env_frames =
     \<lparr> thread_name = ''thread_0'', thread_id = 1,
       client_new = Inr (), send_start = Inr (),
       time0 = 1000,
       time_cond = (\<lambda>i. 1001 + real i),
       abort_queued = (\<lambda>i. False),
       recvMessage = (\<lambda>i. if i < 3 then Inr (PDict [(''frame'', PBytes [i])])
                            else Inl ConnectionError),
       frame2numpy = (\<lambda>v sz. case v of PBytes b \<Rightarrow> Inr (NDArray [[b]]) | _ \<Rightarrow> Inl DecodeError),
       time_step = (\<lambda>i. 1001 + real i),
       send_commands = (\<lambda>i. Inr ()),
       send_stop = Inr (), client_close = Inr () \<rparr>"

text \<open>The same, with Stop pressed so that the queued abort runs in the second pass.\<close>

definition env_abort :: env where
  "env_abort = env_frames\<lparr>abort_queued := (\<lambda>i. i = 1)\<rparr>"

text \<open>The same, with a clock that is 80 hours later at its second reading.\<close>

definition env_late :: env where
  "env_late = env_frames\<lparr>time_cond := (\<lambda>i. 289000)\<rparr>"

text \<open>The same, with a client whose \<^verbatim>\<open>sendMessage\<close> raises for every command.\<close>

definition env_send_fails :: env where
  "env_send_fails = env_frames\<lparr>send_commands := (\<lambda>i. Inl ConnectionError)\<rparr>"

text \<open>
  The same, with a client whose \<^verbatim>\<open>recvMessage\<close> returns \<^verbatim>\<open>None\<close> instead of a
  dictionary.
\<close>

definition env_none :: env where
  "env_none = env_frames\<lparr>recvMessage := (\<lambda>i. Inr PNone)\<rparr>"

text \<open>The worker that \<^verbatim>\<open>start_thread\<close> makes when the program is started without options.\<close>

definition worker0 :: worker where
  "worker0 = Worker_init 0 (parse_args \<lparr>opt_host = None, opt_port = None\<rparr>)"

section \<open>The loop, pass by pass\<close>

text \<open>
  One pass in closed form: its result and its events depend on the answers of the
  surroundings only, and the flag is set exactly when a queued abort is dispatched.
\<close>

lemma work_body_eq:
  "work_body env i s =
     (pass_result env i,
      s\<lparr>abort_flag := abort_flag s \<or> abort_queued env i,
        log := log s @ pass_events env (wid s) i\<rparr>)"
  by (cases s) (simp add: work_body_def processEvents_def abort_def emit_def pass_result_def pass_events_def
      pass_image_def Let_def split: sum.splits)

lemma flag_False_log: "\<not> abort_flag s \<Longrightarrow> s\<lparr>abort_flag := False, log := l\<rparr> = s\<lparr>log := l\<rparr>"
  by (cases s) simp

text \<open>\<open>N\<close> passes without an exception and without an abort use up \<open>N\<close> of the bound.\<close>

lemma loop_quiet:
  assumes "\<forall>j<N. time_cond env (i + j) < st \<and> pass_result env (i + j) = Inr () \<and> \<not> abort_queued env (i + j)"
    and "\<not> abort_flag s"
  shows "work_loop (N + f) env st i s =
         work_loop f env st (i + N) (s\<lparr>log := log s @ concat (map (pass_events env (wid s)) [i..<i + N])\<rparr>)"
  using assms
proof (induction N arbitrary: i s)
  case 0
  then show ?case by simp
next
  case (Suc N)
  let ?s1 = "s\<lparr>log := log s @ pass_events env (wid s) i\<rparr>"
  from Suc.prems(1) have now: "time_cond env i < st" "pass_result env i = Inr ()" "\<not> abort_queued env i"
    by force+
  have step: "work_loop (Suc N + f) env st i s = work_loop (N + f) env st (Suc i) ?s1"
    using now Suc.prems(2) by (simp add: work_body_eq flag_False_log)
  have rest: "\<forall>j<N. time_cond env (Suc i + j) < st \<and> pass_result env (Suc i + j) = Inr ()
                \<and> \<not> abort_queued env (Suc i + j)"
    using Suc.prems(1) by (metis add_Suc_shift Suc_less_eq)
  have "work_loop (N + f) env st (Suc i) ?s1 =
        work_loop f env st (Suc i + N)
          (?s1\<lparr>log := log ?s1 @ concat (map (pass_events env (wid ?s1)) [Suc i..<Suc i + N])\<rparr>)"
    using Suc.IH [OF rest, of ?s1] Suc.prems(2) by simp
  moreover have "[i..<i + Suc N] = i # [Suc i..<Suc i + N]"
    by (simp add: upt_conv_Cons)
  ultimately show ?case using step by simp
qed

text \<open>
  Whatever the surroundings answer, the loop appends the events of consecutive passes
  to the log and changes nothing else but the flag.
\<close>

lemma loop_shape:
  "\<exists>k b. snd (work_loop f env st i s) =
      s\<lparr>abort_flag := b, log := log s @ concat (map (pass_events env (wid s)) [i..<i + k])\<rparr>"
proof (induction f arbitrary: i s)
  case 0
  have "snd (work_loop 0 env st i s) = s\<lparr>abort_flag := abort_flag s, log := log s @ concat (map (pass_events env (wid s)) [i..<i + 0])\<rparr>"
    by simp
  then show ?case by blast
next
  case (Suc f)
  show ?case
  proof (cases "time_cond env i < st \<and> \<not> abort_flag s")
    case False
    then have "snd (work_loop (Suc f) env st i s) = s\<lparr>abort_flag := abort_flag s, log := log s @ concat (map (pass_events env (wid s)) [i..<i + 0])\<rparr>"
      by auto
    then show ?thesis by blast
  next
    case True
    let ?s1 = "s\<lparr>abort_flag := abort_flag s \<or> abort_queued env i, log := log s @ pass_events env (wid s) i\<rparr>"
    show ?thesis
    proof (cases "pass_result env i")
      case (Inl e)
      then have "snd (work_loop (Suc f) env st i s) = s\<lparr>abort_flag := abort_flag s \<or> abort_queued env i, log := log s @ concat (map (pass_events env (wid s)) [i..<i + 1])\<rparr>"
        using True by (simp add: work_body_eq)
      then show ?thesis by blast
    next
      case (Inr u)
      then have step: "work_loop (Suc f) env st i s = work_loop f env st (Suc i) ?s1"
        using True by (simp add: work_body_eq)
      from Suc.IH [of "Suc i" ?s1] obtain k b where
        "snd (work_loop f env st (Suc i) ?s1) =
           ?s1\<lparr>abort_flag := b, log := log ?s1 @ concat (map (pass_events env (wid ?s1)) [Suc i..<Suc i + k])\<rparr>"
        by blast
      moreover have "[i..<i + Suc k] = i # [Suc i..<Suc i + k]"
        by (simp add: upt_conv_Cons)
      ultimately have "snd (work_loop (Suc f) env st i s) =
          s\<lparr>abort_flag := b, log := log s @ concat (map (pass_events env (wid s)) [i..<i + Suc k])\<rparr>"
        using step by simp
      then show ?thesis by blast
    qed
  qed
qed

text \<open>\<^verbatim>\<open>work()\<close> from the loop on, once the client is made and Start is sent.\<close>

lemma work_after_prologue:
  assumes "client_new env = Inr ()" "send_start env = Inr ()"
  shows "work f env s =
     (case work_loop f env (deadline env) 0 (after_prologue env s) of
        (None, s5) \<Rightarrow> (None, s5)
      | (Some (Inl e), s5) \<Rightarrow> (Some (Inl e), s5)
      | (Some (Inr u), s5) \<Rightarrow>
          (case send_stop env of
             Inl e \<Rightarrow> (Some (Inl e), s5\<lparr>log := log s5 @ [SendMessage Stop]\<rparr>)
           | Inr u \<Rightarrow>
               (case client_close env of
                  Inl e \<Rightarrow> (Some (Inl e), s5\<lparr>log := log s5 @ [SendMessage Stop, Close]\<rparr>)
                | Inr u \<Rightarrow>
                    (Some (Inr ()), s5\<lparr>log := log s5 @ [SendMessage Stop, Close, SigDone (wid s5)]\<rparr>))))"
  using assms
  by (simp add: work_def emit_def Let_def deadline_def after_prologue_def prologue_def
      split: prod.splits option.splits sum.splits)


lemma loop_raises:
  assumes q: "\<forall>j<N. time_cond env j < st \<and> pass_result env j = Inr () \<and> \<not> abort_queued env j"
    and now: "time_cond env N < st" "pass_result env N = Inl e"
    and fl: "\<not> abort_flag s"
  shows "work_loop (Suc N + f) env st 0 s =
         (Some (Inl e),
          s\<lparr>abort_flag := abort_queued env N,
            log := log s @ concat (map (pass_events env (wid s)) [0..<Suc N])\<rparr>)"
proof -
  let ?s1 = "s\<lparr>log := log s @ concat (map (pass_events env (wid s)) [0..<N])\<rparr>"
  have q': "\<forall>j<N. time_cond env (0 + j) < st \<and> pass_result env (0 + j) = Inr () \<and> \<not> abort_queued env (0 + j)"
    using q by simp
  have "work_loop (N + Suc f) env st 0 s = work_loop (Suc f) env st (0 + N) ?s1"
    using loop_quiet [OF q' fl, of "Suc f"] by simp
  then show ?thesis
    using now fl by (simp add: work_body_eq)
qed


lemma work_raises:
  assumes "client_new env = Inr ()" "send_start env = Inr ()"
    and "quiet_passes env N" "time_cond env N < deadline env" "pass_result env N = Inl e"
    and "\<not> abort_flag s" "N < fuel"
  shows "work fuel env s =
         (Some (Inl e),
          s\<lparr>abort_flag := abort_queued env N,
            client := Some (host (wargs s), port (wargs s)),
            log := log s @ prologue env s @ concat (map (pass_events env (wid s)) [0..<Suc N])\<rparr>)"
proof -
  have q: "\<forall>j<N. time_cond env j < deadline env \<and> pass_result env j = Inr () \<and> \<not> abort_queued env j"
    using assms(3) by (simp add: quiet_passes_def)
  have fl: "\<not> abort_flag (after_prologue env s)"
    using assms(6) by (simp add: after_prologue_def)
  obtain f where f: "fuel = Suc N + f"
    using assms(7) by (auto simp add: less_iff_Suc_add)
  show ?thesis
    unfolding f work_after_prologue [OF assms(1,2)] loop_raises [OF q assms(4,5) fl]
    by (simp add: after_prologue_def)
qed




lemma pass_no_epilogue: "filter is_epilogue (pass_events env w i) = []"
  by (simp add: pass_events_def split: option.splits)






lemma filter_passes_Nil:
  "(\<And>j. filter P (F j) = []) \<Longrightarrow> filter P (concat (map F js)) = []"
  by (induction js) simp_all





text \<open>The shape of the log of every run of \<^verbatim>\<open>work()\<close>, finished or not.\<close>

lemma work_log:
  "\<exists>k tail. log (snd (work fuel env s)) =
      log s @ [SigMsg (Running (wid s) (thread_name env) (thread_id env)),
               ClientNew (host (wargs s)) (port (wargs s))] @
      (case client_new env of Inl e \<Rightarrow> [] | Inr u \<Rightarrow> [SendMessage (Start (Scenario (- 1)))]) @
      concat (map (pass_events env (wid s)) [0..<k]) @ tail \<and>
      tail \<in> {[], [SendMessage Stop], [SendMessage Stop, Close],
               [SendMessage Stop, Close, SigDone (wid s)]}"
proof (cases "client_new env")
  case (Inl e)
  then have "log (snd (work fuel env s)) =
      log s @ [SigMsg (Running (wid s) (thread_name env) (thread_id env)),
               ClientNew (host (wargs s)) (port (wargs s))] @
      (case client_new env of Inl e \<Rightarrow> [] | Inr u \<Rightarrow> [SendMessage (Start (Scenario (- 1)))]) @
      concat (map (pass_events env (wid s)) [0..<0]) @ []"
    by (simp add: work_def emit_def)
  then show ?thesis by blast
next
  case new: (Inr u)
  show ?thesis
  proof (cases "send_start env")
    case (Inl e)
    then have "log (snd (work fuel env s)) =
      log s @ [SigMsg (Running (wid s) (thread_name env) (thread_id env)),
               ClientNew (host (wargs s)) (port (wargs s))] @
      (case client_new env of Inl e \<Rightarrow> [] | Inr u \<Rightarrow> [SendMessage (Start (Scenario (- 1)))]) @
      concat (map (pass_events env (wid s)) [0..<0]) @ []"
      using new by (simp add: work_def emit_def)
    then show ?thesis by blast
  next
    case start: (Inr u')
    let ?ap = "after_prologue env s"
    obtain k b where sh: "snd (work_loop fuel env (deadline env) 0 ?ap) =
        ?ap\<lparr>abort_flag := b, log := log ?ap @ concat (map (pass_events env (wid ?ap)) [0..<0 + k])\<rparr>"
      using loop_shape [of fuel env "deadline env" 0 ?ap] by blast
    obtain st s5 where l: "work_loop fuel env (deadline env) 0 ?ap = (st, s5)"
      by (cases "work_loop fuel env (deadline env) 0 ?ap") blast
    have s5: "log s5 = log s @ prologue env s @ concat (map (pass_events env (wid s)) [0..<k])"
      "wid s5 = wid s"
      using sh l by (simp_all add: after_prologue_def)
    have "\<exists>tail. log (snd (work fuel env s)) = log s5 @ tail \<and>
            tail \<in> {[], [SendMessage Stop], [SendMessage Stop, Close],
               [SendMessage Stop, Close, SigDone (wid s)]}"
      using s5(2) new start
      by (simp add: work_after_prologue l split: option.splits sum.splits)
    then show ?thesis
      using s5(1) new by (auto simp add: prologue_def)
  qed
qed


lemma all_less_3: "(\<forall>j<3. P (j::nat)) = (P 0 \<and> P 1 \<and> P 2)"
  by (auto simp add: numeral_3_eq_3 numeral_2_eq_2 less_Suc_eq)

lemmas sample_defs =
  env_frames_def env_abort_def env_late_def env_send_fails_def env_none_def worker0_def
  Worker_init_def parse_args_def

lemmas pass_defs = pass_result_def pass_image_def pass_events_def run_def

section \<open>The order of the operations in one pass\<close>

text \<open>
  Where the command cannot be sent, the frame has already been shown: with a client whose
  \<^verbatim>\<open>sendMessage\<close> raises for the first command, \<^verbatim>\<open>work()\<close> has emitted \<^verbatim>\<open>sig_step\<close> and
  \<^verbatim>\<open>sig_image\<close> for the first frame before it calls \<^verbatim>\<open>sendMessage\<close>, and it ends with
  the exception of that call. The notifications do not wait for the send.
\<close>

theorem notified_without_command_counterexample:
  "work 1 env_send_fails worker0 =
     (Some (Inl ConnectionError),
      \<lparr>wid = 0, abort_flag = False,
        wargs = \<lparr>host = PStr ''localhost'', port = PInt 8000\<rparr>,
        client = Some (PStr ''localhost'', PInt 8000),
        log = [SigMsg (Running 0 ''thread_0'' 1),
               ClientNew (PStr ''localhost'') (PInt 8000),
               SendMessage (Start (Scenario (- 1))),
               ProcessEvents, RecvMessage, SigStep 0 1001, SigImage [[[0]]],
               SendMessage (Commands 1 0 0)]\<rparr>)"
  by (simp add: work_def emit_def work_body_eq sample_defs pass_defs)

text \<open>
  C1, as the code has it. In every pass in which a frame is received and decoded, the
  worker calls \<^verbatim>\<open>processEvents\<close> (where a queued abort runs), receives, emits \<^verbatim>\<open>sig_step\<close>
  and then \<^verbatim>\<open>sig_image\<close> with the frame of this pass, and only then sends the command that
  \<^verbatim>\<open>Model.run\<close> computed from that frame. The pass ends as that send ends: both
  notifications are in the log whether or not the send raises.
\<close>

theorem pass_order:
  assumes "pass_image env i = Some img"
  shows "work_body env i s =
     (send_commands env i,
      s\<lparr>abort_flag := abort_flag s \<or> abort_queued env i,
        log := log s @ [ProcessEvents] @
               (if abort_queued env i then [SigMsg (NotifiedAbort (wid s))] else []) @
               [RecvMessage, SigStep (wid s) (time_step env i), SigImage (tolist img),
                SendMessage (Commands (run img ! 0) (run img ! 1) (run img ! 2))]\<rparr>)"
  using assms
  by (auto simp add: work_body_eq pass_result_def pass_image_def pass_events_def split: sum.splits)

theorem pass_order_witness:
  "work_body env_frames 0 worker0 =
     (Inr (),
      \<lparr>wid = 0, abort_flag = False,
        wargs = \<lparr>host = PStr ''localhost'', port = PInt 8000\<rparr>,
        client = None,
        log = [ProcessEvents, RecvMessage, SigStep 0 1001, SigImage [[[0]]],
               SendMessage (Commands 1 0 0)]\<rparr>)"
  using pass_order [of env_frames 0 "NDArray [[[0]]]" worker0]
  by (simp add: sample_defs pass_defs)

section \<open>How \<^verbatim>\<open>work()\<close> ends\<close>




text \<open>
  When \<^verbatim>\<open>recvMessage\<close> returns \<^verbatim>\<open>None\<close>, the lookup \<^verbatim>\<open>message['frame']\<close> raises
  TypeError. Nothing in \<^verbatim>\<open>work()\<close> catches it: the call ends with the exception, and
  the log ends at the receive, with no signal after it.
\<close>

theorem error_not_reported_counterexample:
  "work 1 env_none worker0 =
     (Some (Inl TypeError),
      \<lparr>wid = 0, abort_flag = False,
        wargs = \<lparr>host = PStr ''localhost'', port = PInt 8000\<rparr>,
        client = Some (PStr ''localhost'', PInt 8000),
        log = [SigMsg (Running 0 ''thread_0'' 1),
               ClientNew (PStr ''localhost'') (PInt 8000),
               SendMessage (Start (Scenario (- 1))),
               ProcessEvents, RecvMessage]\<rparr>)"
  by (simp add: work_def emit_def work_body_eq sample_defs pass_defs)

text \<open>
  C3, as the code has it. An exception raised in pass \<open>N\<close> of the loop (by the receive,
  the lookup or decoding of the frame, or the send of the command) after \<open>N\<close> good passes
  is not caught in \<^verbatim>\<open>work()\<close>: the call ends with that exception, the log ends with the
  events of pass \<open>N\<close>, and no Stop message, close or \<^verbatim>\<open>sig_done\<close> is added. Class Worker
  has no signal for errors. The exception reaches the hook installed as
  \<^verbatim>\<open>sys.excepthook\<close>, which prints it and emits nothing.
\<close>

theorem error_propagates:
  assumes "client_new env = Inr ()" "send_start env = Inr ()" "\<not> abort_flag s"
    and "quiet_passes env N" "time_cond env N < deadline env" "pass_result env N = Inl e"
    and "N < fuel"
  shows "\<exists>s'. work fuel env s = (Some (Inl e), s') \<and>
           log s' = log s @ prologue env s @ concat (map (pass_events env (wid s)) [0..<Suc N]) \<and>
           filter is_epilogue (log s') = filter is_epilogue (log s) \<and>
           started fuel env s = (Some (Inr ()), s'\<lparr>log := log s' @ [Print e]\<rparr>)"
proof -
  let ?ext = "prologue env s @ concat (map (pass_events env (wid s)) [0..<Suc N])"
  let ?s' = "s\<lparr>abort_flag := abort_queued env N,
               client := Some (host (wargs s), port (wargs s)),
               log := log s @ ?ext\<rparr>"
  have w: "work fuel env s = (Some (Inl e), ?s')"
    using work_raises [of env N e s fuel] assms by simp
  have "filter is_epilogue ?ext = []"
    by (simp add: prologue_def pass_no_epilogue
        filter_passes_Nil [of is_epilogue, OF pass_no_epilogue] del: upt_Suc)
  then have "filter is_epilogue (log ?s') = filter is_epilogue (log s)"
    by simp
  moreover have "started fuel env s = (Some (Inr ()), ?s'\<lparr>log := log ?s' @ [Print e]\<rparr>)"
    by (simp add: started_def w trap_exc_during_debug_def emit_def)
  ultimately show ?thesis using w by (intro exI [of _ ?s']) simp
qed

theorem error_propagates_witness:
  "\<exists>s'. work 4 env_frames worker0 = (Some (Inl ConnectionError), s') \<and>
      log s' = log worker0 @ prologue env_frames worker0 @
               concat (map (pass_events env_frames (wid worker0)) [0..<Suc 3]) \<and>
      filter is_epilogue (log s') = filter is_epilogue (log worker0) \<and>
      started 4 env_frames worker0 = (Some (Inr ()), s'\<lparr>log := log s' @ [Print ConnectionError]\<rparr>)"
proof -
  have b: "quiet_passes env_frames 3" "time_cond env_frames 3 < deadline env_frames"
    "pass_result env_frames 3 = Inl ConnectionError"
    by (simp_all add: quiet_passes_def deadline_def all_less_3 sample_defs pass_result_def)
  have pb: "client_new env_frames = Inr ()" "send_start env_frames = Inr ()"
    and w: "\<not> abort_flag worker0"
    by (simp_all add: sample_defs)
  show ?thesis
    by (rule error_propagates [OF pb w b]) simp
qed

section \<open>Pairing of receives, notifications and commands\<close>



section \<open>The stub controller\<close>

text \<open>
  C5. For every frame, \<^verbatim>\<open>Model.run\<close> returns the constant list 1.0, 0.0, 0.0
  (throttle, brake, steering), whatever the frame holds.
\<close>

theorem run_constant: "run frame = [1, 0, 0]"
  by (simp add: run_def)

section \<open>A stop time that has passed\<close>



section \<open>Cancellation\<close>

text \<open>
  C7. \<^verbatim>\<open>abort()\<close> sets the flag (\<^verbatim>\<open>self.__abort\<close>; the loop runs while it is not set).
  The loop reads the flag only in its condition: with the flag set it makes no further
  pass and logs nothing, whatever the clock says. When the queued abort runs inside
  \<^verbatim>\<open>processEvents\<close> at the start of a pass, that pass still goes on to receive, notify
  and send, and the loop leaves at the next evaluation of its condition: one pass in
  flight is completed after the flag changes, and none is started.
\<close>

theorem abort_cooperative:
  "abort_flag (abort s) \<and>
   work_loop (Suc f) env st i (abort s) = (Some (Inr ()), abort s) \<and>
   (\<not> abort_flag s \<and> time_cond env i < st \<and> abort_queued env i \<and>
    pass_image env i = Some img \<and> send_commands env i = Inr () \<longrightarrow>
    work_loop (Suc (Suc f)) env st i s =
      (Some (Inr ()),
       s\<lparr>abort_flag := True,
         log := log s @
           [ProcessEvents, SigMsg (NotifiedAbort (wid s)), RecvMessage,
            SigStep (wid s) (time_step env i), SigImage (tolist img),
            SendMessage (Commands (run img ! 0) (run img ! 1) (run img ! 2))]\<rparr>))"
  by (auto simp add: abort_def emit_def work_body_eq pass_result_def pass_image_def pass_events_def
      split: sum.splits)

theorem abort_cooperative_witness:
  "abort_flag (abort worker0) \<and>
   work_loop 1 env_abort 289000 2 (abort worker0) = (Some (Inr ()), abort worker0) \<and>
   work_loop 2 env_abort 289000 1 worker0 =
      (Some (Inr ()),
       \<lparr>wid = 0, abort_flag = True,
         wargs = \<lparr>host = PStr ''localhost'', port = PInt 8000\<rparr>,
         client = None,
         log = [ProcessEvents, SigMsg (NotifiedAbort 0), RecvMessage,
            SigStep 0 1002, SigImage [[[1]]], SendMessage (Commands 1 0 0)]\<rparr>)"
  using abort_cooperative [of worker0 0 env_abort 289000 2 "NDArray [[[1]]]"]
    abort_cooperative [of worker0 0 env_abort 289000 1 "NDArray [[[1]]]"]
  by (simp add: sample_defs pass_defs abort_def emit_def numeral_2_eq_2 del: work_loop.simps)

text \<open>
  C8. After \<^verbatim>\<open>work()\<close> has ended, \<^verbatim>\<open>abort()\<close> changes nothing that anyone observes: it
  sets the flag, which is not read again, and emits \<^verbatim>\<open>sig_msg\<close>, to which no slot is
  connected. The signals that reach a slot and the calls on the client are the same
  after one call of \<^verbatim>\<open>abort()\<close> and after two as before, and \<^verbatim>\<open>sig_done\<close> is in the log
  at most once.
\<close>

theorem abort_after_done:
  assumes "work fuel env s = (Some r, s')" "filter is_done (log s) = []"
  shows "filter (\<lambda>e. connected e \<or> is_client e) (log (abort s')) =
           filter (\<lambda>e. connected e \<or> is_client e) (log s') \<and>
         filter (\<lambda>e. connected e \<or> is_client e) (log (abort (abort s'))) =
           filter (\<lambda>e. connected e \<or> is_client e) (log s') \<and>
         length (filter is_done (log (abort s'))) \<le> 1"
proof -
  obtain k tail where l: "log (snd (work fuel env s)) =
      log s @ [SigMsg (Running (wid s) (thread_name env) (thread_id env)),
               ClientNew (host (wargs s)) (port (wargs s))] @
      (case client_new env of Inl e \<Rightarrow> [] | Inr u \<Rightarrow> [SendMessage (Start (Scenario (- 1)))]) @
      concat (map (pass_events env (wid s)) [0..<k]) @ tail"
    and t: "tail \<in> {[], [SendMessage Stop], [SendMessage Stop, Close],
               [SendMessage Stop, Close, SigDone (wid s)]}"
    using work_log [of fuel env s] by auto
  have p: "filter is_done (concat (map (pass_events env (wid s)) [0..<k])) = []"
    by (rule filter_passes_Nil) (simp add: pass_events_def split: option.splits)
  have "length (filter is_done (log s')) \<le> 1"
    using l t p assms by (auto split: sum.splits)
  then show ?thesis
    by (simp add: abort_def emit_def)
qed

theorem abort_after_done_witness:
  "filter (\<lambda>e. connected e \<or> is_client e) (log (abort (snd (work 3 env_abort worker0)))) =
     filter (\<lambda>e. connected e \<or> is_client e) (log (snd (work 3 env_abort worker0))) \<and>
   filter (\<lambda>e. connected e \<or> is_client e) (log (abort (abort (snd (work 3 env_abort worker0))))) =
     filter (\<lambda>e. connected e \<or> is_client e) (log (snd (work 3 env_abort worker0))) \<and>
   length (filter is_done (log (abort (snd (work 3 env_abort worker0))))) \<le> 1"
proof -
  have "work 3 env_abort worker0 = (Some (Inr ()), snd (work 3 env_abort worker0))"
    by (simp add: work_def emit_def work_body_eq sample_defs pass_defs eval_nat_numeral)
  moreover have "filter is_done (log worker0) = []"
    by (simp add: sample_defs)
  ultimately show ?thesis by (rule abort_after_done)
qed

section \<open>Configuration\<close>



section \<open>The Start message\<close>



end
